theory Spec2Isabelle
  imports Complex_Main
begin

section \<open>Numbers and exceptions\<close>

text \<open>
  The Python code is duck-typed over \<open>int\<close>, \<open>float\<close> and \<open>complex\<close>. The model uses
  exact arithmetic: operator coefficients and refractive indices are \<^typ>\<open>real\<close>, ray
  heights and angles are \<^typ>\<open>complex\<close> (a real ray is one whose imaginary parts are
  zero; a Gaussian beam stores a genuinely complex angle), and the coercion Python
  applies silently is \<^const>\<open>complex_of_real\<close>. Rounding of IEEE floats is outside
  the model. What is inside: every \<open>ZeroDivisionError\<close> and \<open>ValueError\<close> the code
  can raise is an \<open>Inl\<close> result, and \<open>math.inf\<close> is a value of its own.
\<close>

datatype py_error = ZeroDivisionError | ValueError string | TypeError

datatype pyfloat = Finite real | PosInf | NegInf

definition py_bind :: "py_error + 'a \<Rightarrow> ('a \<Rightarrow> py_error + 'b) \<Rightarrow> py_error + 'b" where
  "py_bind m k = (case m of Inl e \<Rightarrow> Inl e | Inr v \<Rightarrow> k v)"

definition truediv :: "real \<Rightarrow> real \<Rightarrow> py_error + real" where
  "truediv a b = (if b = 0 then Inl ZeroDivisionError else Inr (a / b))"

definition ctruediv :: "complex \<Rightarrow> complex \<Rightarrow> py_error + complex" where
  "ctruediv a b = (if b = 0 then Inl ZeroDivisionError else Inr (a / b))"

section \<open>surfaces.py: the ABCD operator\<close>

record ABCD =
  n1 :: real
  n2 :: real
  A :: real
  B :: real
  C :: real
  D :: real
  E :: real
  F :: real

text \<open>\<open>ABCD.__init__\<close>; \<open>E\<close> and \<open>F\<close> are \<open>None\<close> unless given.\<close>

definition ABCD_init ::
  "real \<Rightarrow> real \<Rightarrow> real \<Rightarrow> real \<Rightarrow> real \<Rightarrow> real \<Rightarrow> real \<Rightarrow> real \<Rightarrow> real
    \<Rightarrow> real option \<Rightarrow> real option \<Rightarrow> ABCD" where
  "ABCD_init a b c d m1 m2 disp tilt len e f =
     \<lparr> n1 = m1, n2 = m2, A = a, B = b, C = c, D = d,
       E = (case e of None \<Rightarrow> (1 - a) * disp + (len - m1 * b) * tilt | Some v \<Rightarrow> v),
       F = (case f of None \<Rightarrow> - c * disp + (m2 - m1 * d) * tilt | Some v \<Rightarrow> v) \<rparr>"


text \<open>\<open>ABCD.__eq__\<close> compares the six coefficients and ignores the indices.\<close>

definition ABCD_eq :: "ABCD \<Rightarrow> ABCD \<Rightarrow> bool" where
  "ABCD_eq X Y \<longleftrightarrow>
     A X = A Y \<and> B X = B Y \<and> C X = C Y \<and> D X = D Y \<and> E X = E Y \<and> F X = F Y"

text \<open>The \<open>isinstance(other, ABCD)\<close> branch of \<open>ABCD.__matmul__\<close>, on values.\<close>

definition compose :: "ABCD \<Rightarrow> ABCD \<Rightarrow> ABCD" where
  "compose X Y =
     (let a = A X * A Y + B X * C Y;
          b = A X * B Y + B X * D Y;
          c = C X * A Y + D X * C Y;
          d = C X * B Y + D X * D Y;
          e = A X * E Y + B X * F Y + E X;
          f = C X * E Y + D X * F Y + F X
      in ABCD_init a b c d (n1 Y) (n2 X) 0 0 0 (Some e) (Some f))"

section \<open>sources.py: rays\<close>

text \<open>
  \<open>GaussianBeam\<close> subclasses \<open>Ray\<close> and adds no attribute, so one record serves both;
  \<open>cls\<close> is the object's class, which \<open>copy.deepcopy\<close> preserves.
\<close>

datatype ray_class = Ray_cls | GaussianBeam_cls

record Ray =
  cls :: ray_class
  y :: complex
  u :: complex
  n :: real
  lam0 :: real

text \<open>\<open>Ray.__init__\<close>; the defaults are \<open>Ray_init 0 0 1 (532e-9)\<close>.\<close>

definition Ray_init :: "complex \<Rightarrow> complex \<Rightarrow> real \<Rightarrow> real \<Rightarrow> Ray" where
  "Ray_init yv uv nv lv = \<lparr> cls = Ray_cls, y = yv, u = uv, n = nv, lam0 = lv \<rparr>"

section \<open>Objects, references and \<open>ABCD.__matmul__\<close>\<close>

text \<open>
  Python variables hold references. The store is the list of all live objects, a
  reference is an index into it, and a fresh object is appended at the end. Attribute
  assignment \<open>ret.y = v\<close> updates the object at \<open>ret\<close> in place.
\<close>

datatype obj = ABCD_obj ABCD | Ray_obj Ray

type_synonym store = "obj list"

type_synonym ref = nat

definition alloc :: "store \<Rightarrow> obj \<Rightarrow> store \<times> ref" where
  "alloc h ob = (h @ [ob], length h)"

text \<open>\<open>copy.deepcopy\<close>: a new object with equal attributes (all of them numbers here).\<close>

definition deepcopy :: "store \<Rightarrow> ref \<Rightarrow> store \<times> ref" where
  "deepcopy h r = alloc h (h ! r)"

definition set_y :: "store \<Rightarrow> ref \<Rightarrow> complex \<Rightarrow> store" where
  "set_y h r v = h[r := (case h ! r of Ray_obj x \<Rightarrow> Ray_obj (x\<lparr>y := v\<rparr>) | ob \<Rightarrow> ob)]"

definition set_u :: "store \<Rightarrow> ref \<Rightarrow> complex \<Rightarrow> store" where
  "set_u h r v = h[r := (case h ! r of Ray_obj x \<Rightarrow> Ray_obj (x\<lparr>u := v\<rparr>) | ob \<Rightarrow> ob)]"

definition set_n :: "store \<Rightarrow> ref \<Rightarrow> real \<Rightarrow> store" where
  "set_n h r v = h[r := (case h ! r of Ray_obj x \<Rightarrow> Ray_obj (x\<lparr>n := v\<rparr>) | ob \<Rightarrow> ob)]"

text \<open>
  \<open>self @ other\<close>. The result is the store afterwards together with either the
  reference returned or the exception raised. Both right-hand sides of the ray branch
  are computed before the copy is made, so a \<open>ZeroDivisionError\<close> from \<open>/ self.n2\<close>
  leaves the store as it was. \<open>self\<close> and \<open>other\<close> are references to live objects.
\<close>

definition matmul :: "store \<Rightarrow> ref \<Rightarrow> ref \<Rightarrow> store \<times> (py_error + ref)" where
  "matmul h self other =
     (case h ! self of
        Ray_obj _ \<Rightarrow> (h, Inl TypeError)
      | ABCD_obj X \<Rightarrow>
         (case h ! other of
            ABCD_obj Y \<Rightarrow>
              (let (h1, ret) = alloc h (ABCD_obj (compose X Y)) in (h1, Inr ret))
          | Ray_obj r \<Rightarrow>
              (let yv = of_real (A X) * y r + of_real (B X) * of_real (n r) * u r
                          + of_real (E X)
               in case ctruediv (of_real (C X) * y r + of_real (D X) * of_real (n r) * u r
                                   + of_real (F X)) (of_real (n2 X)) of
                    Inl e \<Rightarrow> (h, Inl e)
                  | Inr uv \<Rightarrow>
                      (let (h1, ret) = deepcopy h other;
                           h2 = set_y h1 ret yv;
                           h3 = set_u h2 ret uv;
                           h4 = set_n h3 ret (n2 X)
                       in (h4, Inr ret)))))"

text \<open>\<open>Ray.__imatmul__\<close> and \<open>ABCD.__imatmul__\<close>: \<open>self @= other\<close> is \<open>other @ self\<close>.\<close>

definition imatmul :: "store \<Rightarrow> ref \<Rightarrow> ref \<Rightarrow> store \<times> (py_error + ref)" where
  "imatmul h self other = matmul h other self"

section \<open>Cardinal points\<close>









section \<open>Element constructors\<close>

text \<open>
  \<open>**kwargs\<close> forwarded to \<open>ABCD.__init__\<close>: each keyword is present or absent.
  (\<open>A\<close> to \<open>D\<close> are always passed positionally, so they cannot be keywords.)
\<close>

record kwargs =
  kw_n1 :: "real option"
  kw_n2 :: "real option"
  kw_disp :: "real option"
  kw_tilt :: "real option"
  kw_length :: "real option"
  kw_E :: "real option"
  kw_F :: "real option"

definition no_kwargs :: kwargs where
  "no_kwargs = \<lparr> kw_n1 = None, kw_n2 = None, kw_disp = None, kw_tilt = None,
                  kw_length = None, kw_E = None, kw_F = None \<rparr>"

definition dflt :: "real \<Rightarrow> real option \<Rightarrow> real" where
  "dflt d v = (case v of None \<Rightarrow> d | Some x \<Rightarrow> x)"

text \<open>\<open>super().__init__(A, B, C, D, **kwargs)\<close>: absent keywords take the defaults.\<close>

definition ABCD_kw :: "real \<Rightarrow> real \<Rightarrow> real \<Rightarrow> real \<Rightarrow> kwargs \<Rightarrow> ABCD" where
  "ABCD_kw a b c d kw =
     ABCD_init a b c d (dflt 1 (kw_n1 kw)) (dflt 1 (kw_n2 kw)) (dflt 0 (kw_disp kw))
       (dflt 0 (kw_tilt kw)) (dflt 0 (kw_length kw)) (kw_E kw) (kw_F kw)"

text \<open>
  \<open>super().__init__(A, B, C, D, n1, n2, **kwargs)\<close>: a keyword \<open>n1\<close> or \<open>n2\<close> would
  be a second value for a positional parameter, which Python rejects.
\<close>

definition ABCD_kw6 ::
  "real \<Rightarrow> real \<Rightarrow> real \<Rightarrow> real \<Rightarrow> real \<Rightarrow> real \<Rightarrow> kwargs \<Rightarrow> py_error + ABCD" where
  "ABCD_kw6 a b c d m1 m2 kw =
     (if kw_n1 kw = None \<and> kw_n2 kw = None then
        Inr (ABCD_init a b c d m1 m2 (dflt 0 (kw_disp kw)) (dflt 0 (kw_tilt kw))
               (dflt 0 (kw_length kw)) (kw_E kw) (kw_F kw))
      else Inl TypeError)"

text \<open>\<open>Transfer(t, n=1, **kwargs)\<close>: \<open>n\<close> enters only through \<open>t / n\<close>.\<close>

definition Transfer :: "real \<Rightarrow> real \<Rightarrow> kwargs \<Rightarrow> py_error + ABCD" where
  "Transfer t nv kw = py_bind (truediv t nv) (\<lambda>b. Inr (ABCD_kw 1 b 0 1 kw))"

text \<open>\<open>str.lower\<close> on ASCII text.\<close>

definition lower_char :: "char \<Rightarrow> char" where
  "lower_char c =
     (let k = (of_char c :: nat) in if 65 \<le> k \<and> k \<le> 90 then char_of (k + 32) else c)"

definition lower :: "string \<Rightarrow> string" where
  "lower s = map lower_char s"

text \<open>\<open>math.asin\<close> raises \<open>ValueError\<close> outside \<open>[-1, 1]\<close>.\<close>

definition asin :: "real \<Rightarrow> py_error + real" where
  "asin x = (if - 1 \<le> x \<and> x \<le> 1 then Inr (arcsin x)
             else Inl (ValueError ''math domain error''))"

text \<open>
  \<open>Refraction(R, n1, n2, AOI=0, T_or_S="T", **kwargs)\<close>. The triple chosen by the
  plane selector is \<open>(denominator, A, D)\<close>; the sagittal branch's first assignment to
  \<open>dne\<close> is overwritten before use.
\<close>

definition Refraction ::
  "real \<Rightarrow> real \<Rightarrow> real \<Rightarrow> real \<Rightarrow> string \<Rightarrow> kwargs \<Rightarrow> py_error + ABCD" where
  "Refraction Rv m1 m2 AOI T_or_S kw =
     py_bind (truediv (m1 * sin AOI) m2) (\<lambda>s.
     py_bind (asin s) (\<lambda>AOE.
       let C1 = cos AOI; C2 = cos AOE in
       py_bind
         (if lower T_or_S = ''t'' then
            py_bind (truediv C2 C1) (\<lambda>a.
            py_bind (truediv C1 C2) (\<lambda>d. Inr (C1 * C2, a, d)))
          else if lower T_or_S = ''s'' then Inr (1, 1, 1)
          else Inl (ValueError (''Unknown T_or_S: '' @ T_or_S)))
         (\<lambda>(denominator, a, d).
            let numerator = m2 * C2 - m1 * C1 in
            py_bind (truediv numerator denominator) (\<lambda>dne.
            py_bind (truediv (- dne) Rv) (\<lambda>c.
            ABCD_kw6 a 0 c d m1 m2 kw)))))"

text \<open>\<open>ThinLens(f, **kwargs)\<close>.\<close>

definition ThinLens :: "real \<Rightarrow> kwargs \<Rightarrow> py_error + ABCD" where
  "ThinLens fv kw = py_bind (truediv (- 1) fv) (\<lambda>c. Inr (ABCD_kw 1 0 c 1 kw))"

text \<open>
  \<open>ThickLens(R1, R2, t, n_glass, n_ambient=1, **kwargs)\<close>;
  \<open>r2 @ t @ r1\<close> associates to the left.
\<close>

definition ThickLens ::
  "real \<Rightarrow> real \<Rightarrow> real \<Rightarrow> real \<Rightarrow> real \<Rightarrow> kwargs \<Rightarrow> py_error + ABCD" where
  "ThickLens R1 R2 t n_glass n_ambient kw =
     py_bind (Refraction R1 n_ambient n_glass 0 ''T'' no_kwargs) (\<lambda>r1.
     py_bind (Transfer t n_glass no_kwargs) (\<lambda>tr.
     py_bind (Refraction R2 n_glass n_ambient 0 ''T'' no_kwargs) (\<lambda>r2.
       let net = compose (compose r2 tr) r1
       in ABCD_kw6 (A net) (B net) (C net) (D net) (n1 net) (n2 net) kw)))"

section \<open>sources.py: Gaussian beams\<close>

text \<open>
  The module \<open>equations\<close> holding the six closed-form solvers is not part of the
  sources at hand, so the constructor takes them as a parameter. A solver may raise.
  \<open>R\<close> can be \<open>math.inf\<close> (the constructor itself puts it there), hence \<^typ>\<open>pyfloat\<close>.
\<close>

record equations =
  q_from_R_w :: "pyfloat \<Rightarrow> real \<Rightarrow> real \<Rightarrow> real \<Rightarrow> py_error + complex"
  q_from_z_zR :: "real \<Rightarrow> real \<Rightarrow> real \<Rightarrow> py_error + complex"
  q_from_R_z :: "pyfloat \<Rightarrow> real \<Rightarrow> real \<Rightarrow> py_error + complex"
  q_from_R_zR :: "pyfloat \<Rightarrow> real \<Rightarrow> real \<Rightarrow> int \<Rightarrow> py_error + complex"
  q_from_w_z :: "real \<Rightarrow> real \<Rightarrow> real \<Rightarrow> real \<Rightarrow> int \<Rightarrow> py_error + complex"
  q_from_w_zR :: "real \<Rightarrow> real \<Rightarrow> real \<Rightarrow> real \<Rightarrow> int \<Rightarrow> py_error + complex"


text \<open>The keyword arguments of \<open>GaussianBeam.__init__\<close>; \<open>None\<close> is the default.\<close>

record gb_args =
  arg_lam0 :: real
  arg_n :: real
  arg_sign :: int
  arg_q :: "complex option"
  arg_R :: "pyfloat option"
  arg_w :: "real option"
  arg_z :: "real option"
  arg_zR :: "real option"

text \<open>\<open>GaussianBeam()\<close> with no keyword given.\<close>

definition gb_defaults :: gb_args where
  "gb_defaults = \<lparr> arg_lam0 = 532 / 10 ^ 9, arg_n = 1, arg_sign = 1, arg_q = None,
                    arg_R = None, arg_w = None, arg_z = None, arg_zR = None \<rparr>"

text \<open>\<open>if R == 0: R = math.inf\<close>; \<open>None == 0\<close> is false.\<close>

definition normalize_R :: "gb_args \<Rightarrow> gb_args" where
  "normalize_R a = (if arg_R a = Some (Finite 0) then a\<lparr>arg_R := Some PosInf\<rparr> else a)"

text \<open>The \<open>if\<close>/\<open>elif\<close> chain that computes \<open>qr\<close>, branch by branch.\<close>

definition solve_qr :: "equations \<Rightarrow> gb_args \<Rightarrow> py_error + complex" where
  "solve_qr eqs a =
     (if arg_q a \<noteq> None then ctruediv (the (arg_q a)) (of_real (arg_n a))
      else if arg_R a \<noteq> None \<and> arg_w a \<noteq> None then
        q_from_R_w eqs (the (arg_R a)) (the (arg_w a)) (arg_lam0 a) (arg_n a)
      else if arg_z a \<noteq> None \<and> arg_zR a \<noteq> None then
        q_from_z_zR eqs (the (arg_z a)) (the (arg_zR a)) (arg_n a)
      else if arg_R a \<noteq> None \<and> arg_z a \<noteq> None then
        q_from_R_z eqs (the (arg_R a)) (the (arg_z a)) (arg_n a)
      else if arg_R a \<noteq> None \<and> arg_zR a \<noteq> None then
        q_from_R_zR eqs (the (arg_R a)) (the (arg_zR a)) (arg_n a) (arg_sign a)
      else if arg_w a \<noteq> None \<and> arg_z a \<noteq> None then
        q_from_w_z eqs (the (arg_w a)) (the (arg_z a)) (arg_lam0 a) (arg_n a) (arg_sign a)
      else if arg_w a \<noteq> None \<and> arg_zR a \<noteq> None then
        q_from_w_zR eqs (the (arg_w a)) (the (arg_zR a)) (arg_lam0 a) (arg_n a) (arg_sign a)
      else Inl (ValueError ''No valid configuration for beam found''))"

text \<open>\<open>super().__init__(1, 1 / (n * qr), n, \<lambda>0)\<close> on a \<open>GaussianBeam\<close> instance.\<close>

definition gb_store :: "gb_args \<Rightarrow> complex \<Rightarrow> py_error + Ray" where
  "gb_store a qr =
     py_bind (ctruediv 1 (of_real (arg_n a) * qr)) (\<lambda>uv.
       Inr ((Ray_init 1 uv (arg_n a) (arg_lam0 a))\<lparr>cls := GaussianBeam_cls\<rparr>))"

definition GaussianBeam_init :: "equations \<Rightarrow> gb_args \<Rightarrow> py_error + Ray" where
  "GaussianBeam_init eqs a0 =
     (let a = normalize_R a0 in
      if arg_w a = Some 0 \<or> arg_zR a = Some 0 then
        Inl (ValueError ''Invalid argument w or zR'')
      else py_bind (solve_qr eqs a) (gb_store a))"

text \<open>
  The derived properties. \<open>x ** 0.5\<close> on a negative float yields a complex number in
  Python, the principal root, so \<open>w0\<close> and \<open>\<theta>\<close> are complex-valued in general.
\<close>

definition q :: "Ray \<Rightarrow> py_error + complex" where
  "q r = ctruediv (y r) (u r)"


definition zR :: "Ray \<Rightarrow> py_error + real" where
  "zR r = py_bind (q r) (\<lambda>v. Inr (Im v))"

definition pow_half :: "real \<Rightarrow> complex" where
  "pow_half x = csqrt (of_real x)"

definition w0 :: "Ray \<Rightarrow> py_error + complex" where
  "w0 r = py_bind (zR r) (\<lambda>zRv.
          py_bind (truediv (lam0 r * zRv) (n r * pi)) (\<lambda>v. Inr (pow_half v)))"

definition \<theta> :: "Ray \<Rightarrow> py_error + complex" where
  "\<theta> r = py_bind (w0 r) (\<lambda>w0v.
         py_bind (zR r) (\<lambda>zRv. ctruediv w0v (of_real zRv)))"

section \<open>The specification's words, as definitions\<close>

subsection \<open>Limits of the cardinal-point ratios\<close>

text \<open>
  The specification speaks of the limiting sign of a ratio \<open>num / C\<close> as \<open>C\<close> approaches
  zero. The limit depends on the side from which \<open>C\<close> approaches and on the sign of the
  numerator; \<open>ratio_limit\<close> computes it, and lemma \<open>ratio_limit_sound\<close> below shows that it
  is the limit in the sense of analysis.
\<close>

datatype approach = From_below | From_above

definition ratio_limit :: "real \<Rightarrow> approach \<Rightarrow> pyfloat" where
  "ratio_limit num side =
     (if num = 0 then Finite 0
      else if (0 < num) = (side = From_above) then PosInf else NegInf)"

definition approach_filter :: "approach \<Rightarrow> real filter" where
  "approach_filter side = (case side of From_below \<Rightarrow> at_left 0 | From_above \<Rightarrow> at_right 0)"


subsection \<open>The constructor's dispatch as a priority list\<close>

text \<open>
  The specification describes the choice of solver as a priority-ordered match over the
  set of supplied keywords: \<open>q > (R,w) > (z,zR) > (R,z) > (R,zR) > (w,z) > (w,zR)\<close>.
  \<open>first_supplied\<close> is that description; \<open>solve_qr\<close> above is the code.
\<close>

datatype param = P_q | P_R | P_w | P_z | P_zR

datatype branch = By_q | By_R_w | By_z_zR | By_R_z | By_R_zR | By_w_z | By_w_zR

fun needs :: "branch \<Rightarrow> param list" where
  "needs By_q = [P_q]"
| "needs By_R_w = [P_R, P_w]"
| "needs By_z_zR = [P_z, P_zR]"
| "needs By_R_z = [P_R, P_z]"
| "needs By_R_zR = [P_R, P_zR]"
| "needs By_w_z = [P_w, P_z]"
| "needs By_w_zR = [P_w, P_zR]"

definition precedence :: "branch list" where
  "precedence = [By_q, By_R_w, By_z_zR, By_R_z, By_R_zR, By_w_z, By_w_zR]"

text \<open>Presence is \<open>is not None\<close>: a supplied zero is supplied.\<close>

fun supplied :: "gb_args \<Rightarrow> param \<Rightarrow> bool" where
  "supplied a P_q = (arg_q a \<noteq> None)"
| "supplied a P_R = (arg_R a \<noteq> None)"
| "supplied a P_w = (arg_w a \<noteq> None)"
| "supplied a P_z = (arg_z a \<noteq> None)"
| "supplied a P_zR = (arg_zR a \<noteq> None)"

definition first_supplied :: "gb_args \<Rightarrow> branch option" where
  "first_supplied a = find (\<lambda>b. list_all (supplied a) (needs b)) precedence"

fun run_solver :: "equations \<Rightarrow> gb_args \<Rightarrow> branch \<Rightarrow> py_error + complex" where
  "run_solver eqs a By_q = ctruediv (the (arg_q a)) (of_real (arg_n a))"
| "run_solver eqs a By_R_w =
     q_from_R_w eqs (the (arg_R a)) (the (arg_w a)) (arg_lam0 a) (arg_n a)"
| "run_solver eqs a By_z_zR = q_from_z_zR eqs (the (arg_z a)) (the (arg_zR a)) (arg_n a)"
| "run_solver eqs a By_R_z = q_from_R_z eqs (the (arg_R a)) (the (arg_z a)) (arg_n a)"
| "run_solver eqs a By_R_zR =
     q_from_R_zR eqs (the (arg_R a)) (the (arg_zR a)) (arg_n a) (arg_sign a)"
| "run_solver eqs a By_w_z =
     q_from_w_z eqs (the (arg_w a)) (the (arg_z a)) (arg_lam0 a) (arg_n a) (arg_sign a)"
| "run_solver eqs a By_w_zR =
     q_from_w_zR eqs (the (arg_w a)) (the (arg_zR a)) (arg_lam0 a) (arg_n a) (arg_sign a)"

section \<open>Basic facts\<close>

lemma py_bind_simps:
  "py_bind (Inl e) k = Inl e" "py_bind (Inr v) k = k v"
  by (simp_all add: py_bind_def)


lemma compose_sel:
  "A (compose X Y) = A X * A Y + B X * C Y"
  "B (compose X Y) = A X * B Y + B X * D Y"
  "C (compose X Y) = C X * A Y + D X * C Y"
  "D (compose X Y) = C X * B Y + D X * D Y"
  "E (compose X Y) = A X * E Y + B X * F Y + E X"
  "F (compose X Y) = C X * E Y + D X * F Y + F X"
  "n1 (compose X Y) = n1 Y"
  "n2 (compose X Y) = n2 X"
  by (simp_all add: compose_def ABCD_init_def Let_def)

lemma ABCD_kw_sel:
  "A (ABCD_kw a b c d kw) = a" "B (ABCD_kw a b c d kw) = b"
  "C (ABCD_kw a b c d kw) = c" "D (ABCD_kw a b c d kw) = d"
  "n1 (ABCD_kw a b c d kw) = dflt 1 (kw_n1 kw)"
  "n2 (ABCD_kw a b c d kw) = dflt 1 (kw_n2 kw)"
  by (simp_all add: ABCD_kw_def ABCD_init_def)

text \<open>The ray branch of \<open>@\<close>, when the division goes through and when it does not.\<close>

lemma matmul_Ray_value:
  assumes "h ! self = ABCD_obj X" and "h ! other = Ray_obj r" and "n2 X \<noteq> 0"
  shows "matmul h self other =
           (h @ [Ray_obj \<lparr> cls = cls r,
                   y = of_real (A X) * y r + of_real (B X) * of_real (n r) * u r
                         + of_real (E X),
                   u = (of_real (C X) * y r + of_real (D X) * of_real (n r) * u r
                          + of_real (F X)) / of_real (n2 X),
                   n = n2 X, lam0 = lam0 r \<rparr>], Inr (length h))"
  using assms
  by (simp add: matmul_def ctruediv_def deepcopy_def alloc_def set_y_def set_u_def
      set_n_def Let_def)

lemma matmul_Ray_zero_index:
  assumes "h ! self = ABCD_obj X" and "h ! other = Ray_obj r" and "n2 X = 0"
  shows "matmul h self other = (h, Inl ZeroDivisionError)"
  using assms by (simp add: matmul_def ctruediv_def Let_def)

lemma Transfer_value:
  assumes "nv \<noteq> 0"
  shows "Transfer t nv kw = Inr (ABCD_kw 1 (t / nv) 0 1 kw)"
  using assms by (simp add: Transfer_def truediv_def py_bind_simps)

lemma Transfer_zero_index: "Transfer t 0 kw = Inl ZeroDivisionError"
  by (simp add: Transfer_def truediv_def py_bind_simps)

section \<open>Composition and application\<close>

text \<open>
  C1. Applying an operator \<open>X\<close> to a ray or Gaussian beam \<open>r\<close> returns a new object of
  the same class with \<open>y' = X.A r.y + X.B r.n r.u + X.E\<close>,
  \<open>u' = (X.C r.y + X.D r.n r.u + X.F) / X.n2\<close>, index \<open>X.n2\<close> and the wavelength of \<open>r\<close>;
  the index entering the formulas is the one stored in \<open>r\<close>, whatever \<open>X.n1\<close> is.
  The quotient presupposes a non-zero \<open>X.n2\<close>: with \<open>X.n2 = 0\<close> the division raises
  (lemma \<open>matmul_Ray_zero_index\<close>). The returned reference \<open>length h\<close> is not a live
  reference of the store before the call, so the object is new.
\<close>

theorem apply_to_ray:
  assumes "self < length h" and "other < length h"
    and "h ! self = ABCD_obj X" and "h ! other = Ray_obj r" and "n2 X \<noteq> 0"
  shows "\<exists>r'. matmul h self other = (h @ [Ray_obj r'], Inr (length h))
           \<and> cls r' = cls r
           \<and> y r' = of_real (A X) * y r + of_real (B X) * of_real (n r) * u r + of_real (E X)
           \<and> u r' = (of_real (C X) * y r + of_real (D X) * of_real (n r) * u r
                      + of_real (F X)) / of_real (n2 X)
           \<and> n r' = n2 X
           \<and> lam0 r' = lam0 r
           \<and> length h \<noteq> self \<and> length h \<noteq> other"
  using matmul_Ray_value [OF assms(3,4,5)] assms(1,2) by simp

theorem apply_to_ray_witness:
  "\<exists>r'. matmul [ABCD_obj (ABCD_init 1 2 3 4 1 2 0 0 0 None None),
                  Ray_obj \<lparr>cls = GaussianBeam_cls, y = 1, u = 1 / 2, n = 3 / 2, lam0 = 1\<rparr>] 0 1
           = ([ABCD_obj (ABCD_init 1 2 3 4 1 2 0 0 0 None None),
               Ray_obj \<lparr>cls = GaussianBeam_cls, y = 1, u = 1 / 2, n = 3 / 2, lam0 = 1\<rparr>,
               Ray_obj r'], Inr 2)
         \<and> cls r' = GaussianBeam_cls \<and> y r' = 5 / 2 \<and> u r' = 3 \<and> n r' = 2 \<and> lam0 r' = 1"
proof -
  let ?X = "ABCD_init 1 2 3 4 1 2 0 0 0 None None"
  let ?r = "\<lparr>cls = GaussianBeam_cls, y = 1, u = 1 / 2, n = 3 / 2, lam0 = 1\<rparr>"
  let ?h = "[ABCD_obj ?X, Ray_obj ?r]"
  have hyps: "0 < length ?h" "1 < length ?h" "?h ! 0 = ABCD_obj ?X" "?h ! 1 = Ray_obj ?r"
    "n2 ?X \<noteq> 0"
    by (simp_all add: ABCD_init_def)
  from apply_to_ray [OF hyps] show ?thesis
    by (simp add: ABCD_init_def numeral_2_eq_2)
qed

text \<open>
  C2. For operators \<open>X\<close> (left) and \<open>Y\<close> (right), \<open>X @ Y\<close> returns a new operator with
  the 2x2 product for \<open>A, B, C, D\<close>, the affine part
  \<open>E = X.A Y.E + X.B Y.F + X.E\<close>, \<open>F = X.C Y.E + X.D Y.F + X.F\<close>, \<open>n1\<close> of \<open>Y\<close> and
  \<open>n2\<close> of \<open>X\<close>; both operands are in the store afterwards exactly as before.
\<close>

theorem compose_operators:
  assumes "self < length h" and "other < length h"
    and "h ! self = ABCD_obj X" and "h ! other = ABCD_obj Y"
  shows "\<exists>Z. matmul h self other = (h @ [ABCD_obj Z], Inr (length h))
           \<and> A Z = A X * A Y + B X * C Y
           \<and> B Z = A X * B Y + B X * D Y
           \<and> C Z = C X * A Y + D X * C Y
           \<and> D Z = C X * B Y + D X * D Y
           \<and> E Z = A X * E Y + B X * F Y + E X
           \<and> F Z = C X * E Y + D X * F Y + F X
           \<and> n1 Z = n1 Y \<and> n2 Z = n2 X
           \<and> (h @ [ABCD_obj Z]) ! self = ABCD_obj X
           \<and> (h @ [ABCD_obj Z]) ! other = ABCD_obj Y"
proof -
  have "matmul h self other = (h @ [ABCD_obj (compose X Y)], Inr (length h))"
    using assms(3,4) by (simp add: matmul_def alloc_def)
  moreover have "(h @ [ABCD_obj (compose X Y)]) ! self = ABCD_obj X"
    using assms(1,3) by (simp add: nth_append)
  moreover have "(h @ [ABCD_obj (compose X Y)]) ! other = ABCD_obj Y"
    using assms(2,4) by (simp add: nth_append)
  ultimately show ?thesis
    using compose_sel by blast
qed

theorem compose_operators_witness:
  "\<exists>Z. matmul [ABCD_obj (ABCD_init 1 0 (- 2) 1 1 (3 / 2) 1 0 0 None None),
                 ABCD_obj (ABCD_init 1 3 0 1 2 1 0 0 0 (Some 5) (Some 7))] 0 1
          = ([ABCD_obj (ABCD_init 1 0 (- 2) 1 1 (3 / 2) 1 0 0 None None),
              ABCD_obj (ABCD_init 1 3 0 1 2 1 0 0 0 (Some 5) (Some 7)),
              ABCD_obj Z], Inr 2)
        \<and> A Z = 1 \<and> B Z = 3 \<and> C Z = - 2 \<and> D Z = - 5 \<and> E Z = 5 \<and> F Z = - 1
        \<and> n1 Z = 2 \<and> n2 Z = 3 / 2"
proof -
  let ?X = "ABCD_init 1 0 (- 2) 1 1 (3 / 2) 1 0 0 None None"
  let ?Y = "ABCD_init 1 3 0 1 2 1 0 0 0 (Some 5) (Some 7)"
  let ?h = "[ABCD_obj ?X, ABCD_obj ?Y]"
  have hyps: "0 < length ?h" "1 < length ?h" "?h ! 0 = ABCD_obj ?X" "?h ! 1 = ABCD_obj ?Y"
    by simp_all
  from compose_operators [OF hyps] show ?thesis
    by (simp add: ABCD_init_def numeral_2_eq_2)
qed


text \<open>
  C7. The plain application \<open>X @ r\<close> leaves the ray \<open>r\<close> as it was: the object at the
  reference \<open>other\<close> has the same \<open>y\<close>, \<open>u\<close>, \<open>n\<close> and wavelength afterwards, whether the
  call returns or raises, and so has every other object that was live before the call.
\<close>

theorem apply_leaves_ray:
  assumes "other < length h" and "h ! other = Ray_obj r"
  shows "fst (matmul h self other) ! other = Ray_obj r
       \<and> take (length h) (fst (matmul h self other)) = h"
  using assms
  by (auto simp add: matmul_def ctruediv_def deepcopy_def alloc_def set_y_def set_u_def
      set_n_def Let_def nth_append split: obj.splits)

theorem apply_leaves_ray_witness:
  "fst (matmul [ABCD_obj (ABCD_init 1 2 3 4 1 2 0 0 0 None None),
                Ray_obj (Ray_init 1 (1 / 2) (3 / 2) 1)] 0 1) ! 1
     = Ray_obj (Ray_init 1 (1 / 2) (3 / 2) 1)
   \<and> snd (matmul [ABCD_obj (ABCD_init 1 2 3 4 1 2 0 0 0 None None),
                  Ray_obj (Ray_init 1 (1 / 2) (3 / 2) 1)] 0 1) = Inr 2"
proof -
  let ?X = "ABCD_init 1 2 3 4 1 2 0 0 0 None None"
  let ?r = "Ray_init 1 (1 / 2) (3 / 2) 1"
  let ?h = "[ABCD_obj ?X, Ray_obj ?r]"
  have hyps: "1 < length ?h" "?h ! 1 = Ray_obj ?r"
    by simp_all
  have "n2 ?X \<noteq> 0"
    by (simp add: ABCD_init_def)
  then have "snd (matmul ?h 0 1) = Inr 2"
    by (subst matmul_Ray_value [where X = ?X and r = ?r]) simp_all
  with apply_leaves_ray [OF hyps, of 0] show ?thesis
    by simp
qed

section \<open>Cardinal points of an afocal operator\<close>

text \<open>\<open>ratio_limit\<close> is the limit of \<open>num / c\<close> as \<open>c\<close> tends to zero from the given side.\<close>

lemma ratio_limit_sound:
  "(case ratio_limit num side of
      PosInf \<Rightarrow> filterlim (\<lambda>c. num / c) at_top (approach_filter side)
    | NegInf \<Rightarrow> filterlim (\<lambda>c. num / c) at_bot (approach_filter side)
    | Finite v \<Rightarrow> ((\<lambda>c. num / c) \<longlongrightarrow> v) (approach_filter side))"
proof -
  have pos_above: "filterlim (\<lambda>c. k / c) at_top (at_right 0)" if "0 < k" for k :: real
    unfolding divide_inverse
    by (rule filterlim_tendsto_pos_mult_at_top [OF tendsto_const that
          filterlim_inverse_at_top_right])
  have pos_below: "filterlim (\<lambda>c. k / c) at_bot (at_left 0)" if "0 < k" for k :: real
    unfolding divide_inverse
    by (rule filterlim_tendsto_pos_mult_at_bot [OF tendsto_const that
          filterlim_inverse_at_bot_neg])
  have neg_above: "filterlim (\<lambda>c. k / c) at_bot (at_right 0)" if "k < 0" for k :: real
    unfolding divide_inverse
    by (rule filterlim_tendsto_neg_mult_at_bot [OF tendsto_const that
          filterlim_inverse_at_top_right])
  have neg_below: "filterlim (\<lambda>c. k / c) at_top (at_left 0)" if "k < 0" for k :: real
  proof -
    have "filterlim (\<lambda>c. (- k) / c) at_bot (at_left 0)"
      using pos_below [of "- k"] that by simp
    then show ?thesis
      by (simp add: filterlim_uminus_at_bot)
  qed
  show ?thesis
  proof (cases "num = 0")
    case True
    have eq: "(/) (0::real) = (\<lambda>c. 0)" by (rule ext) simp
    show ?thesis by (simp add: True ratio_limit_def eq)
  next
    case False
    then consider "0 < num" | "num < 0" by linarith
    then show ?thesis
    proof cases
      case 1
      then show ?thesis
        using pos_above pos_below
        by (cases side) (simp_all add: ratio_limit_def approach_filter_def)
    next
      case 2
      then show ?thesis
        using neg_above neg_below
        by (cases side) (simp_all add: ratio_limit_def approach_filter_def)
    qed
  qed
qed




section \<open>Constructing a Gaussian beam\<close>

lemma solve_qr_first_supplied:
  "solve_qr eqs a =
     (case first_supplied a of
        None \<Rightarrow> Inl (ValueError ''No valid configuration for beam found'')
      | Some b \<Rightarrow> run_solver eqs a b)"
  by (cases "arg_q a"; cases "arg_R a"; cases "arg_w a"; cases "arg_z a"; cases "arg_zR a")
     (simp_all add: solve_qr_def first_supplied_def precedence_def)

lemma first_supplied_normalize_R: "first_supplied (normalize_R a) = first_supplied a"
  by (simp add: first_supplied_def precedence_def normalize_R_def)

lemma normalize_R_sel:
  "arg_w (normalize_R a) = arg_w a" "arg_zR (normalize_R a) = arg_zR a"
  "arg_z (normalize_R a) = arg_z a" "arg_q (normalize_R a) = arg_q a"
  "arg_n (normalize_R a) = arg_n a" "arg_lam0 (normalize_R a) = arg_lam0 a"
  "arg_sign (normalize_R a) = arg_sign a"
  by (simp_all add: normalize_R_def)



text \<open>
  C6. When neither \<open>w\<close> nor \<open>zR\<close> is a supplied zero, the constructor runs the solver of
  the first entry of \<open>q > (R,w) > (z,zR) > (R,z) > (R,zR) > (w,z) > (w,zR)\<close> all of whose
  keywords are present, on the arguments with \<open>R = 0\<close> replaced by infinity; presence is
  \<open>is not None\<close>. In particular \<open>GaussianBeam(R=0, w=wv)\<close> runs the \<open>(R,w)\<close> solver at
  \<open>R = math.inf\<close>, and \<open>GaussianBeam(w=wv, z=0)\<close> runs the \<open>(w,z)\<close> solver at \<open>z = 0\<close>.
\<close>

theorem solver_precedence:
  assumes "arg_w a \<noteq> Some 0" and "arg_zR a \<noteq> Some 0" and "wv \<noteq> 0"
  shows "GaussianBeam_init eqs a =
           py_bind (case first_supplied a of
                      None \<Rightarrow> Inl (ValueError ''No valid configuration for beam found'')
                    | Some b \<Rightarrow> run_solver eqs (normalize_R a) b)
                   (gb_store (normalize_R a))
       \<and> GaussianBeam_init eqs (gb_defaults\<lparr>arg_R := Some (Finite 0), arg_w := Some wv\<rparr>) =
           py_bind (q_from_R_w eqs PosInf wv (arg_lam0 gb_defaults) (arg_n gb_defaults))
                   (gb_store (gb_defaults\<lparr>arg_R := Some PosInf, arg_w := Some wv\<rparr>))
       \<and> GaussianBeam_init eqs (gb_defaults\<lparr>arg_w := Some wv, arg_z := Some 0\<rparr>) =
           py_bind (q_from_w_z eqs wv 0 (arg_lam0 gb_defaults) (arg_n gb_defaults)
                      (arg_sign gb_defaults))
                   (gb_store (gb_defaults\<lparr>arg_w := Some wv, arg_z := Some 0\<rparr>))"
proof (intro conjI)
  show "GaussianBeam_init eqs a =
           py_bind (case first_supplied a of
                      None \<Rightarrow> Inl (ValueError ''No valid configuration for beam found'')
                    | Some b \<Rightarrow> run_solver eqs (normalize_R a) b)
                   (gb_store (normalize_R a))"
    using assms(1,2)
    by (simp add: GaussianBeam_init_def Let_def normalize_R_sel solve_qr_first_supplied
        first_supplied_normalize_R)
  show "GaussianBeam_init eqs (gb_defaults\<lparr>arg_R := Some (Finite 0), arg_w := Some wv\<rparr>) =
           py_bind (q_from_R_w eqs PosInf wv (arg_lam0 gb_defaults) (arg_n gb_defaults))
                   (gb_store (gb_defaults\<lparr>arg_R := Some PosInf, arg_w := Some wv\<rparr>))"
    using assms(3)
    by (simp add: GaussianBeam_init_def Let_def normalize_R_def solve_qr_def gb_defaults_def)
  show "GaussianBeam_init eqs (gb_defaults\<lparr>arg_w := Some wv, arg_z := Some 0\<rparr>) =
           py_bind (q_from_w_z eqs wv 0 (arg_lam0 gb_defaults) (arg_n gb_defaults)
                      (arg_sign gb_defaults))
                   (gb_store (gb_defaults\<lparr>arg_w := Some wv, arg_z := Some 0\<rparr>))"
    using assms(3)
    by (simp add: GaussianBeam_init_def Let_def normalize_R_def solve_qr_def gb_defaults_def)
qed

text \<open>
  \<open>GaussianBeam(R=0, w=1, z=0, zR=2)\<close> supplies five recognised pairs; \<open>(R,w)\<close> wins,
  with \<open>R\<close> at infinity.
\<close>

theorem solver_precedence_witness:
  "\<forall>eqs.
     first_supplied (gb_defaults\<lparr>arg_R := Some (Finite 0), arg_w := Some 1,
                                  arg_z := Some 0, arg_zR := Some 2\<rparr>) = Some By_R_w
     \<and> GaussianBeam_init eqs (gb_defaults\<lparr>arg_R := Some (Finite 0), arg_w := Some 1,
                                           arg_z := Some 0, arg_zR := Some 2\<rparr>) =
         py_bind (q_from_R_w eqs PosInf 1 (532 / 10 ^ 9) 1)
                 (gb_store (gb_defaults\<lparr>arg_R := Some PosInf, arg_w := Some 1,
                                          arg_z := Some 0, arg_zR := Some 2\<rparr>))"
proof
  fix eqs
  let ?a = "gb_defaults\<lparr>arg_R := Some (Finite 0), arg_w := Some 1,
                         arg_z := Some 0, arg_zR := Some 2\<rparr>"
  have hyps: "arg_w ?a \<noteq> Some 0" "arg_zR ?a \<noteq> Some 0" "(1::real) \<noteq> 0"
    by simp_all
  have fs: "first_supplied ?a = Some By_R_w"
    by (simp add: first_supplied_def precedence_def gb_defaults_def)
  from solver_precedence [OF hyps, of eqs] fs
  show "first_supplied ?a = Some By_R_w
     \<and> GaussianBeam_init eqs ?a =
         py_bind (q_from_R_w eqs PosInf 1 (532 / 10 ^ 9) 1)
                 (gb_store (gb_defaults\<lparr>arg_R := Some PosInf, arg_w := Some 1,
                                          arg_z := Some 0, arg_zR := Some 2\<rparr>))"
    by (simp add: normalize_R_def gb_defaults_def)
qed

section \<open>Lenses and free space\<close>

lemma lower_T: "lower ''T'' = ''t''"
  by code_simp

text \<open>A refraction at normal incidence in the tangential plane, without keywords.\<close>

lemma Refraction_normal:
  assumes "m2 \<noteq> 0" and "Rv \<noteq> 0"
  shows "Refraction Rv m1 m2 0 ''T'' no_kwargs =
           Inr (ABCD_init 1 0 (- ((m2 - m1) / Rv)) 1 m1 m2 0 0 0 None None)"
  using assms
  by (simp add: Refraction_def truediv_def asin_def py_bind_simps lower_T ABCD_kw6_def
      no_kwargs_def dflt_def Let_def)

text \<open>
  C8. \<open>ThickLens(10e-3, -10e-3, 0, 1.5)\<close> and \<open>ThinLens(10e-3)\<close> are both constructed
  and are equal under \<open>ABCD.__eq__\<close>, coefficient by coefficient, in exact arithmetic:
  both have \<open>C = -100\<close>.
\<close>

theorem lensmaker_thin_thick:
  "\<exists>thin thick. ThinLens (10 / 10 ^ 3) no_kwargs = Inr thin
     \<and> ThickLens (10 / 10 ^ 3) (- 10 / 10 ^ 3) 0 (15 / 10) 1 no_kwargs = Inr thick
     \<and> ABCD_eq thin thick
     \<and> A thick = 1 \<and> B thick = 0 \<and> C thick = - 100 \<and> D thick = 1
     \<and> E thick = 0 \<and> F thick = 0"
proof -
  have thin: "ThinLens (10 / 10 ^ 3) no_kwargs =
                Inr (ABCD_init 1 0 (- 100) 1 1 1 0 0 0 None None)"
    by (simp add: ThinLens_def truediv_def py_bind_simps ABCD_kw_def no_kwargs_def dflt_def)
  have r1: "Refraction (10 / 10 ^ 3) 1 (15 / 10) 0 ''T'' no_kwargs =
              Inr (ABCD_init 1 0 (- 50) 1 1 (15 / 10) 0 0 0 None None)"
    by (subst Refraction_normal) simp_all
  have r2: "Refraction (- 10 / 10 ^ 3) (15 / 10) 1 0 ''T'' no_kwargs =
              Inr (ABCD_init 1 0 (- 50) 1 (15 / 10) 1 0 0 0 None None)"
    by (subst Refraction_normal) simp_all
  have tr: "Transfer 0 (15 / 10) no_kwargs = Inr (ABCD_kw 1 (0 / (15 / 10)) 0 1 no_kwargs)"
    by (rule Transfer_value) simp
  have thick: "ThickLens (10 / 10 ^ 3) (- 10 / 10 ^ 3) 0 (15 / 10) 1 no_kwargs =
                 Inr (ABCD_init 1 0 (- 100) 1 1 1 0 0 0 None None)"
    unfolding ThickLens_def r1 r2 tr py_bind_simps
    by (simp add: compose_sel ABCD_kw_sel ABCD_kw6_def no_kwargs_def dflt_def
        ABCD_init_def Let_def)
  show ?thesis
    unfolding thin thick by (simp add: ABCD_eq_def ABCD_init_def)
qed



text \<open>
  C10. For every \<open>t\<close> and every non-zero \<open>n\<close> (the quotient \<open>t / n\<close> presupposes it; at
  \<open>n = 0\<close> the constructor raises, lemma \<open>Transfer_zero_index\<close>), \<open>Transfer(t, n)\<close>
  without the keywords \<open>n1\<close> and \<open>n2\<close> is the operator \<open>A = 1, B = t / n, C = 0, D = 1\<close>
  with \<open>n1 = 1\<close> and \<open>n2 = 1\<close>. Hence applying it to any ray returns a ray whose stored
  index is 1, whatever \<open>n\<close> and the ray's own index were.
\<close>

theorem Transfer_unit_indices:
  assumes "nv \<noteq> 0" and "kw_n1 kw = None" and "kw_n2 kw = None"
  shows "\<exists>T. Transfer t nv kw = Inr T
           \<and> A T = 1 \<and> B T = t / nv \<and> C T = 0 \<and> D T = 1 \<and> n1 T = 1 \<and> n2 T = 1
           \<and> (\<forall>h self other r. h ! self = ABCD_obj T \<and> h ! other = Ray_obj r \<longrightarrow>
                 (\<exists>r'. matmul h self other = (h @ [Ray_obj r'], Inr (length h))
                        \<and> n r' = 1))"
proof -
  let ?T = "ABCD_kw 1 (t / nv) 0 1 kw"
  have T: "Transfer t nv kw = Inr ?T"
    using assms(1) by (rule Transfer_value)
  have idx: "n1 ?T = 1" "n2 ?T = 1"
    using assms(2,3) by (simp_all add: ABCD_kw_sel dflt_def)
  have app: "\<exists>r'. matmul h self other = (h @ [Ray_obj r'], Inr (length h)) \<and> n r' = 1"
    if "h ! self = ABCD_obj ?T" and "h ! other = Ray_obj r" for h self other r
    using matmul_Ray_value [OF that] idx(2) by simp
  from T idx app show ?thesis
    by (intro exI [of _ ?T]) (auto simp add: ABCD_kw_sel)
qed

text \<open>\<open>Transfer(3, 1.5)\<close> applied to a ray stored with index 1.5.\<close>

theorem Transfer_unit_indices_witness:
  "\<exists>T. Transfer 3 (3 / 2) no_kwargs = Inr T \<and> B T = 2 \<and> n1 T = 1 \<and> n2 T = 1
     \<and> (\<exists>r'. matmul [ABCD_obj T, Ray_obj (Ray_init 1 0 (3 / 2) 1)] 0 1 =
                ([ABCD_obj T, Ray_obj (Ray_init 1 0 (3 / 2) 1), Ray_obj r'], Inr 2)
              \<and> n r' = 1)"
proof -
  have hyps: "(3 / 2 :: real) \<noteq> 0" "kw_n1 no_kwargs = None" "kw_n2 no_kwargs = None"
    by (simp_all add: no_kwargs_def)
  from Transfer_unit_indices [OF hyps, of 3] obtain T where
    T: "Transfer 3 (3 / 2) no_kwargs = Inr T" "B T = 3 / (3 / 2)" "n1 T = 1" "n2 T = 1"
    and app: "\<And>h self other r. h ! self = ABCD_obj T \<and> h ! other = Ray_obj r \<Longrightarrow>
                 (\<exists>r'. matmul h self other = (h @ [Ray_obj r'], Inr (length h)) \<and> n r' = 1)"
    by blast
  from app [of "[ABCD_obj T, Ray_obj (Ray_init 1 0 (3 / 2) 1)]" 0 1 "Ray_init 1 0 (3 / 2) 1"]
  have "\<exists>r'. matmul [ABCD_obj T, Ray_obj (Ray_init 1 0 (3 / 2) 1)] 0 1 =
                ([ABCD_obj T, Ray_obj (Ray_init 1 0 (3 / 2) 1), Ray_obj r'], Inr 2)
              \<and> n r' = 1"
    by (simp add: numeral_2_eq_2)
  with T show ?thesis by simp
qed

end
